theory Spec2Isabelle
  imports Complex_Main
begin

section \<open>The pytest-mcp plugin hooks (src/pytest\_mcp/plugin.py)\<close>

text \<open>
  The module defines five hooks that the host test runner calls: \<open>pytest_configure\<close>,
  \<open>pytest_collection_modifyitems\<close>, \<open>pytest_addoption\<close>, \<open>pytest_report_header\<close> and
  \<open>pytest_exception_interact\<close>. Each hook is embedded as a function from the host
  objects it receives to the host objects as it leaves them, together with what it
  returns and what it emits on the module logger.
\<close>

subsection \<open>Python values and attribute access\<close>

text \<open>
  The values an option of the command-line namespace holds: \<open>None\<close>, a bool, an int,
  a float (a finite one, given by the number it denotes) or a str.
\<close>

datatype pyval = PyNone | PyBool bool | PyInt int | PyFloat real | PyStr string

text \<open>Python's truth value of an object, as \<open>not x\<close> and \<open>if x\<close> test it.\<close>

fun truthy :: "pyval \<Rightarrow> bool" where
  "truthy PyNone = False"
| "truthy (PyBool b) = b"
| "truthy (PyInt i) = (i \<noteq> 0)"
| "truthy (PyFloat r) = (r \<noteq> 0)"
| "truthy (PyStr s) = (s \<noteq> [])"

text \<open>
  What an f-string writes for a value, \<open>format(v, '')\<close>. The decimal text of a float is
  the interpreter's shortest round-trip representation; it is taken as the parameter
  \<open>float_repr\<close>.
\<close>

definition digit_char :: "nat \<Rightarrow> char" where
  "digit_char d = char_of (48 + d)"

fun digits :: "nat \<Rightarrow> string" where
  "digits n = (if n < 10 then [digit_char n] else digits (n div 10) @ [digit_char (n mod 10)])"

fun py_format :: "(real \<Rightarrow> string) \<Rightarrow> pyval \<Rightarrow> string" where
  "py_format float_repr PyNone = ''None''"
| "py_format float_repr (PyBool b) = (if b then ''True'' else ''False'')"
| "py_format float_repr (PyInt i) = (if i < 0 then ''-'' @ digits (nat (- i)) else digits (nat i))"
| "py_format float_repr (PyFloat r) = float_repr r"
| "py_format float_repr (PyStr s) = s"

text \<open>
  An attribute that an object may or may not have is a slot: \<open>None\<close> when the object has
  no such attribute, \<open>Some v\<close> when it has it with value \<open>v\<close>. Reading a missing
  attribute with \<open>obj.name\<close> raises \<open>AttributeError\<close>; \<open>hasattr\<close> tests for it, and
  \<open>getattr\<close> with a default catches it.
\<close>

datatype error = AttributeError string

definition hasattr :: "'v option \<Rightarrow> bool" where
  "hasattr slot = (slot \<noteq> None)"

definition getattr :: "string \<Rightarrow> 'v option \<Rightarrow> error + 'v" where
  "getattr name slot = (case slot of None \<Rightarrow> Inl (AttributeError name) | Some v \<Rightarrow> Inr v)"

definition getattr_default :: "string \<Rightarrow> 'v option \<Rightarrow> 'v \<Rightarrow> 'v" where
  "getattr_default name slot d = (case getattr name slot of Inl e \<Rightarrow> d | Inr v \<Rightarrow> v)"

subsection \<open>Host objects\<close>

text \<open>
  The host's own methods are modelled by what they record: \<open>addinivalue_line\<close>,
  \<open>add_marker\<close> and \<open>addoption\<close> append to the list they extend (a host that refuses an
  option name already taken is outside the module). The items of a collection are
  distinct objects, so the list of items is a list of values.
\<close>

text \<open>
  The configuration object: \<open>ini\<close> gives the lines of each line-list ini value
  (\<open>getini(name)\<close>), \<open>option\<close> is the parsed command-line namespace, an object with
  dynamically present attributes.
\<close>

record config =
  ini :: "string \<Rightarrow> string list"
  option :: "string \<Rightarrow> pyval option"

text \<open>\<open>config.addinivalue_line(name, line)\<close> appends the line to the ini value.\<close>

definition addinivalue_line :: "config \<Rightarrow> string \<Rightarrow> string \<Rightarrow> config" where
  "addinivalue_line config name line = config\<lparr>ini := (ini config)(name := ini config name @ [line])\<rparr>"

text \<open>
  A collected test item: its node id, its \<open>fixturenames\<close> attribute (a list of str where
  the item class has one) and the names of the marks attached to the item itself, in the
  order \<open>add_marker\<close> appended them.
\<close>

record item =
  nodeid :: string
  fixturenames :: "string list option"
  own_markers :: "string list"

definition add_marker :: "item \<Rightarrow> string \<Rightarrow> item" where
  "add_marker item name = item\<lparr>own_markers := own_markers item @ [name]\<rparr>"

text \<open>
  A record of the module logger: its level and its message.
\<close>

datatype level = DEBUG | ERROR

type_synonym log_record = "level \<times> string"

text \<open>
  A command-line option as \<open>group.addoption\<close> receives it: the option string, the
  \<open>action\<close>, \<open>type\<close> (absent, or \<open>float\<close>), \<open>default\<close> and \<open>help\<close> keywords. The parser gives
  for each group name the options added to that group, in order.
\<close>

datatype opt_type = TFloat

record optspec =
  opt_name :: string
  action :: string
  opt_type :: "opt_type option"
  opt_default :: pyval
  opt_help :: string

type_synonym parser = "string \<Rightarrow> optspec list"

definition addoption :: "parser \<Rightarrow> string \<Rightarrow> optspec \<Rightarrow> parser" where
  "addoption parser grp spec = parser(grp := parser grp @ [spec])"

text \<open>
  The exception of a failed call: the \<open>__name__\<close> of its type and the text \<open>str\<close> gives
  for its value. \<open>excinfo\<close> of a call is \<open>None\<close> when the call raised nothing.
\<close>

record exception_info =
  exc_type_name :: string
  exc_value :: string

record callinfo =
  excinfo :: "exception_info option"

subsection \<open>The hooks\<close>

definition pytest_configure :: "config \<Rightarrow> error + (config \<times> log_record list)" where
  "pytest_configure config =
     (let config1 = addinivalue_line config ''markers'' ''mcp: mark test as an MCP server test'';
          config2 = addinivalue_line config1 ''markers''
                      ''mcp_integration: mark test as an MCP integration test'';
          config3 = addinivalue_line config2 ''markers'' ''mcp_slow: mark test as a slow MCP test''
      in case (if hasattr (option config3 ''asyncio_mode'') then
                 (case getattr ''asyncio_mode'' (option config3 ''asyncio_mode'') of
                    Inl e \<Rightarrow> Inl e
                  | Inr asyncio_mode \<Rightarrow>
                      if \<not> truthy asyncio_mode
                      then Inr (config3\<lparr>option :=
                                  (option config3)(''asyncio_mode'' \<mapsto> PyStr ''auto'')\<rparr>)
                      else Inr config3)
               else Inr config3) of
           Inl e \<Rightarrow> Inl e
         | Inr config4 \<Rightarrow> Inr (config4, [(DEBUG, ''pytest-mcp plugin configured'')]))"

text \<open>
  The body of the loop over the collected items. The read of \<open>fixturenames\<close> is the
  defaulted one, behind \<open>hasattr\<close>; the body has no other read of an attribute the item
  may lack.
\<close>

definition mark_item :: "item \<Rightarrow> error + item" where
  "mark_item item =
     (if hasattr (fixturenames item) then
        (let fixture_names = getattr_default ''fixturenames'' (fixturenames item) [];
             item1 = (if ''mcp_client'' \<in> set fixture_names \<or> ''mcp_test_server'' \<in> set fixture_names
                      then add_marker item ''mcp'' else item);
             item2 = (if ''mcp_test_server'' \<in> set fixture_names
                      then add_marker item1 ''mcp_integration'' else item1)
         in Inr item2)
      else Inr item)"

text \<open>The loop: an exception raised for an item ends the hook.\<close>

fun pytest_collection_modifyitems :: "config \<Rightarrow> item list \<Rightarrow> error + item list" where
  "pytest_collection_modifyitems config [] = Inr []"
| "pytest_collection_modifyitems config (item # items) =
     (case mark_item item of
        Inl e \<Rightarrow> Inl e
      | Inr item' \<Rightarrow>
          (case pytest_collection_modifyitems config items of
             Inl e \<Rightarrow> Inl e
           | Inr items' \<Rightarrow> Inr (item' # items')))"

definition pytest_addoption :: "parser \<Rightarrow> parser" where
  "pytest_addoption parser =
     (let group = ''mcp'';
          parser1 = addoption parser group
            \<lparr>opt_name = ''--mcp-log-level'', action = ''store'', opt_type = None,
             opt_default = PyStr ''WARNING'',
             opt_help = ''Set log level for MCP client (DEBUG, INFO, WARNING, ERROR)''\<rparr>;
          parser2 = addoption parser1 group
            \<lparr>opt_name = ''--mcp-timeout'', action = ''store'', opt_type = Some TFloat,
             opt_default = PyFloat 30,
             opt_help = ''Default timeout for MCP operations in seconds''\<rparr>;
          parser3 = addoption parser2 group
            \<lparr>opt_name = ''--mcp-update-snapshots'', action = ''store_true'', opt_type = None,
             opt_default = PyBool False,
             opt_help = ''Update snapshot files instead of comparing''\<rparr>
      in parser3)"

definition pytest_report_header :: "(real \<Rightarrow> string) \<Rightarrow> config \<Rightarrow> error + string list" where
  "pytest_report_header float_repr config =
     (let headers = [] in
      case (if hasattr (option config ''mcp_log_level'') then
              (case getattr ''mcp_log_level'' (option config ''mcp_log_level'') of
                 Inl e \<Rightarrow> Inl e
               | Inr v \<Rightarrow> Inr (headers @ [''mcp: log-level='' @ py_format float_repr v]))
            else Inr headers) of
        Inl e \<Rightarrow> Inl e
      | Inr headers1 \<Rightarrow>
          (if hasattr (option config ''mcp_timeout'') then
             (case getattr ''mcp_timeout'' (option config ''mcp_timeout'') of
                Inl e \<Rightarrow> Inl e
              | Inr v \<Rightarrow> Inr (headers1 @ [''mcp: timeout='' @ py_format float_repr v @ ''s'']))
           else Inr headers1))"

text \<open>
  The exception hook returns nothing; its result here is the list of records it emits
  on the module logger. The report argument is never read.
\<close>

definition pytest_exception_interact :: "item \<Rightarrow> callinfo \<Rightarrow> 'r \<Rightarrow> log_record list" where
  "pytest_exception_interact node call report =
     (case excinfo call of
        None \<Rightarrow> []
      | Some info \<Rightarrow>
          (if exc_type_name info = ''ConnectionError'' then
             [(ERROR, ''MCP connection failed in '' @ nodeid node @ '': '' @ exc_value info
                       @ [CHR 0x0A]
                       @ ''Check that your mcp_server fixture returns valid server parameters.'')]
           else if exc_type_name info = ''TimeoutError'' then
             [(ERROR, ''MCP operation timed out in '' @ nodeid node @ '': '' @ exc_value info
                       @ [CHR 0x0A]
                       @ ''Consider increasing timeout with --mcp-timeout option.'')]
           else []))"

subsection \<open>Notions the properties are stated with\<close>

text \<open>
  The marks a hook run appended to an item: what \<open>own_markers\<close> holds after the run
  beyond what it held before.
\<close>

definition markers_added :: "item \<Rightarrow> item \<Rightarrow> string list" where
  "markers_added before after = drop (length (own_markers before)) (own_markers after)"

text \<open>
  The marker a line of the \<open>markers\<close> ini value defines, as the host reads it: the text
  before the first colon, cut at an opening parenthesis, without surrounding blanks.
\<close>

definition strip :: "string \<Rightarrow> string" where
  "strip s = rev (dropWhile (\<lambda>c. c = CHR '' '') (rev (dropWhile (\<lambda>c. c = CHR '' '') s)))"

definition marker_name :: "string \<Rightarrow> string" where
  "marker_name line =
     strip (takeWhile (\<lambda>c. c \<noteq> CHR ''('') (takeWhile (\<lambda>c. c \<noteq> CHR '':'') line))"

text \<open>
  Example inputs: four collected items (one using the client fixture, one using the
  test server fixture and already marked, one using neither, one of a class with no
  \<open>fixturenames\<close>) and three configuration objects (a namespace with \<open>asyncio_mode\<close> unset
  and both mcp options, one with \<open>asyncio_mode\<close> chosen, one with no attribute at all).
\<close>

definition example_items :: "item list" where
  "example_items =
     [\<lparr>nodeid = ''test_tools.py::test_list_tools'', fixturenames = Some [''mcp_client''],
       own_markers = []\<rparr>,
      \<lparr>nodeid = ''test_server.py::test_start'',
       fixturenames = Some [''tmp_path'', ''mcp_test_server''], own_markers = [''slow'']\<rparr>,
      \<lparr>nodeid = ''test_util.py::test_parse'', fixturenames = Some [''tmp_path''],
       own_markers = [''mcp'']\<rparr>,
      \<lparr>nodeid = ''README.md::line_3'', fixturenames = None, own_markers = []\<rparr>]"

definition example_config :: config where
  "example_config =
     \<lparr>ini = (\<lambda>name. if name = ''markers'' then [''slow: a slow test''] else []),
      option = [''asyncio_mode'' \<mapsto> PyNone, ''mcp_log_level'' \<mapsto> PyStr ''WARNING'',
                ''mcp_timeout'' \<mapsto> PyFloat 30]\<rparr>"

definition strict_config :: config where
  "strict_config = \<lparr>ini = (\<lambda>name. []), option = [''asyncio_mode'' \<mapsto> PyStr ''strict'']\<rparr>"

definition bare_config :: config where
  "bare_config = \<lparr>ini = (\<lambda>name. []), option = (\<lambda>name. None)\<rparr>"

text \<open>
  The example items again under another node id and with other marks of their own: the
  same fixture names, position by position.
\<close>

definition renamed_items :: "item list" where
  "renamed_items = map (\<lambda>item. item\<lparr>nodeid := ''renamed'', own_markers := [''xfail'']\<rparr>) example_items"

text \<open>
  Three calls: one that raised nothing, one that raised a \<open>TimeoutError\<close>, and one that
  raised a \<open>ConnectionRefusedError\<close>, whose name is not exactly \<open>ConnectionError\<close>.
\<close>

definition passed_call :: callinfo where
  "passed_call = \<lparr>excinfo = None\<rparr>"

definition timeout_call :: callinfo where
  "timeout_call = \<lparr>excinfo = Some \<lparr>exc_type_name = ''TimeoutError'', exc_value = ''no reply''\<rparr>\<rparr>"

definition refused_call :: callinfo where
  "refused_call =
     \<lparr>excinfo = Some \<lparr>exc_type_name = ''ConnectionRefusedError'', exc_value = ''refused''\<rparr>\<rparr>"

section \<open>Properties of the hooks\<close>

subsection \<open>What each hook computes\<close>

lemma mark_item_result:
  "mark_item item =
     Inr (item\<lparr>own_markers := own_markers item @
            (case fixturenames item of
               None \<Rightarrow> []
             | Some fs \<Rightarrow>
                 (if ''mcp_client'' \<in> set fs \<or> ''mcp_test_server'' \<in> set fs then [''mcp''] else []) @
                 (if ''mcp_test_server'' \<in> set fs then [''mcp_integration''] else []))\<rparr>)"
  by (simp add: mark_item_def hasattr_def getattr_default_def getattr_def add_marker_def Let_def
           split: option.split)

lemma modifyitems_map:
  "pytest_collection_modifyitems config items = Inr (map (\<lambda>item. projr (mark_item item)) items)"
  by (induction items) (simp_all add: mark_item_result)

lemma own_markers_mark_item:
  "own_markers (projr (mark_item item)) =
     own_markers item @
       (case fixturenames item of
          None \<Rightarrow> []
        | Some fs \<Rightarrow>
            (if ''mcp_client'' \<in> set fs \<or> ''mcp_test_server'' \<in> set fs then [''mcp''] else []) @
            (if ''mcp_test_server'' \<in> set fs then [''mcp_integration''] else []))"
  by (simp add: mark_item_result)

lemma markers_added_mark_item:
  "markers_added item (projr (mark_item item)) =
       (case fixturenames item of
          None \<Rightarrow> []
        | Some fs \<Rightarrow>
            (if ''mcp_client'' \<in> set fs \<or> ''mcp_test_server'' \<in> set fs then [''mcp''] else []) @
            (if ''mcp_test_server'' \<in> set fs then [''mcp_integration''] else []))"
  by (simp add: markers_added_def own_markers_mark_item)

lemma mark_item_appends:
  "own_markers (projr (mark_item item)) =
     own_markers item @ markers_added item (projr (mark_item item))"
  by (simp add: markers_added_def own_markers_mark_item)

lemma mark_item_without_fixturenames:
  "fixturenames item = None \<Longrightarrow> projr (mark_item item) = item"
  by (simp add: mark_item_def hasattr_def)

lemma markers_added_all:
  "map2 markers_added items (map (\<lambda>item. projr (mark_item item)) items) =
     map (\<lambda>slot. case slot of
            None \<Rightarrow> []
          | Some fs \<Rightarrow>
              (if ''mcp_client'' \<in> set fs \<or> ''mcp_test_server'' \<in> set fs then [''mcp''] else []) @
              (if ''mcp_test_server'' \<in> set fs then [''mcp_integration''] else []))
       (map fixturenames items)"
  by (induction items) (simp_all add: markers_added_mark_item)

lemma pytest_configure_result:
  "pytest_configure config =
     Inr (\<lparr>ini = (ini config)(''markers'' := ini config ''markers'' @
             [''mcp: mark test as an MCP server test'',
              ''mcp_integration: mark test as an MCP integration test'',
              ''mcp_slow: mark test as a slow MCP test'']),
           option = (case option config ''asyncio_mode'' of
                       None \<Rightarrow> option config
                     | Some v \<Rightarrow> if truthy v then option config
                                else (option config)(''asyncio_mode'' \<mapsto> PyStr ''auto''))\<rparr>,
          [(DEBUG, ''pytest-mcp plugin configured'')])"
  by (cases "option config ''asyncio_mode''")
     (simp_all add: pytest_configure_def addinivalue_line_def hasattr_def getattr_def Let_def)

lemma pytest_report_header_result:
  "pytest_report_header float_repr config =
     Inr ((case option config ''mcp_log_level'' of
             None \<Rightarrow> []
           | Some v \<Rightarrow> [''mcp: log-level='' @ py_format float_repr v]) @
          (case option config ''mcp_timeout'' of
             None \<Rightarrow> []
           | Some v \<Rightarrow> [''mcp: timeout='' @ py_format float_repr v @ ''s'']))"
  by (cases "option config ''mcp_log_level''"; cases "option config ''mcp_timeout''")
     (simp_all add: pytest_report_header_def hasattr_def getattr_def)

lemma pytest_addoption_result:
  "pytest_addoption parser =
     parser(''mcp'' := parser ''mcp'' @
       [\<lparr>opt_name = ''--mcp-log-level'', action = ''store'', opt_type = None,
         opt_default = PyStr ''WARNING'',
         opt_help = ''Set log level for MCP client (DEBUG, INFO, WARNING, ERROR)''\<rparr>,
        \<lparr>opt_name = ''--mcp-timeout'', action = ''store'', opt_type = Some TFloat,
         opt_default = PyFloat 30,
         opt_help = ''Default timeout for MCP operations in seconds''\<rparr>,
        \<lparr>opt_name = ''--mcp-update-snapshots'', action = ''store_true'', opt_type = None,
         opt_default = PyBool False,
         opt_help = ''Update snapshot files instead of comparing''\<rparr>])"
  by (simp add: pytest_addoption_def addoption_def Let_def)

text \<open>
  The plain attribute read does fail on an object without the attribute, so a hook that
  returns on every input owes it to its guards.
\<close>

lemma getattr_missing: "getattr name None = Inl (AttributeError name)"
  by (simp add: getattr_def)

subsection \<open>Auto-tagging of collected items\<close>

text \<open>
  Claim C1. For every collected item that has a \<open>fixturenames\<close> attribute, the collection
  hook appends the mark \<open>mcp\<close> to the item if and only if its fixture names contain
  \<open>mcp_client\<close> or \<open>mcp_test_server\<close>; an item whose fixture names contain neither gets no
  \<open>mcp\<close> mark from the hook. The hook returns one item for each item it was given, and
  the marks an item had stay in front of the ones appended.
\<close>

theorem modifyitems_mcp_marker:
  assumes "i < length items" and "fixturenames (items ! i) = Some fixture_names"
  shows "\<exists>items'. pytest_collection_modifyitems config items = Inr items' \<and>
           length items' = length items \<and>
           own_markers (items' ! i) =
             own_markers (items ! i) @ markers_added (items ! i) (items' ! i) \<and>
           (''mcp'' \<in> set (markers_added (items ! i) (items' ! i))
              \<longleftrightarrow> ''mcp_client'' \<in> set fixture_names \<or> ''mcp_test_server'' \<in> set fixture_names)"
proof (intro exI conjI)
  let ?items' = "map (\<lambda>item. projr (mark_item item)) items"
  show "pytest_collection_modifyitems config items = Inr ?items'"
    by (rule modifyitems_map)
  show "length ?items' = length items"
    by simp
  have nth: "?items' ! i = projr (mark_item (items ! i))"
    using assms(1) by simp
  show "own_markers (?items' ! i) =
          own_markers (items ! i) @ markers_added (items ! i) (?items' ! i)"
    unfolding nth by (rule mark_item_appends)
  show "''mcp'' \<in> set (markers_added (items ! i) (?items' ! i))
          \<longleftrightarrow> ''mcp_client'' \<in> set fixture_names \<or> ''mcp_test_server'' \<in> set fixture_names"
    unfolding nth using assms(2) by (simp add: markers_added_mark_item)
qed

theorem modifyitems_mcp_marker_witness:
  "1 < length example_items \<and>
   fixturenames (example_items ! 1) = Some [''tmp_path'', ''mcp_test_server''] \<and>
   (\<exists>items'. pytest_collection_modifyitems example_config example_items = Inr items' \<and>
      ''mcp'' \<in> set (markers_added (example_items ! 1) (items' ! 1))) \<and>
   2 < length example_items \<and>
   fixturenames (example_items ! 2) = Some [''tmp_path''] \<and>
   (\<exists>items'. pytest_collection_modifyitems example_config example_items = Inr items' \<and>
      ''mcp'' \<notin> set (markers_added (example_items ! 2) (items' ! 2)))"
proof -
  have l1: "1 < length example_items" and l2: "2 < length example_items"
    by (simp_all add: example_items_def)
  have f1: "fixturenames (example_items ! 1) = Some [''tmp_path'', ''mcp_test_server'']"
    and f2: "fixturenames (example_items ! 2) = Some [''tmp_path'']"
    by (simp_all add: example_items_def)
  from modifyitems_mcp_marker [OF l1 f1, of example_config]
  have m1: "\<exists>items'. pytest_collection_modifyitems example_config example_items = Inr items' \<and>
      ''mcp'' \<in> set (markers_added (example_items ! 1) (items' ! 1))"
  proof (elim exE conjE)
    fix items'
    assume "pytest_collection_modifyitems example_config example_items = Inr items'"
      and "(''mcp'' \<in> set (markers_added (example_items ! 1) (items' ! 1))) =
           (''mcp_client'' \<in> set [''tmp_path'', ''mcp_test_server''] \<or>
            ''mcp_test_server'' \<in> set [''tmp_path'', ''mcp_test_server''])"
    then show ?thesis
      by (intro exI [of _ items']) simp
  qed
  from modifyitems_mcp_marker [OF l2 f2, of example_config]
  have m2: "\<exists>items'. pytest_collection_modifyitems example_config example_items = Inr items' \<and>
      ''mcp'' \<notin> set (markers_added (example_items ! 2) (items' ! 2))"
  proof (elim exE conjE)
    fix items'
    assume "pytest_collection_modifyitems example_config example_items = Inr items'"
      and "(''mcp'' \<in> set (markers_added (example_items ! 2) (items' ! 2))) =
           (''mcp_client'' \<in> set [''tmp_path''] \<or> ''mcp_test_server'' \<in> set [''tmp_path''])"
    then show ?thesis
      by (intro exI [of _ items']) simp
  qed
  from l1 f1 m1 l2 f2 m2 show ?thesis
    by (intro conjI)
qed

text \<open>
  Claim C2. For every collected item that has a \<open>fixturenames\<close> attribute, the collection
  hook appends the mark \<open>mcp_integration\<close> to the item if and only if its fixture names
  contain \<open>mcp_test_server\<close>.
\<close>

theorem modifyitems_integration_marker:
  assumes "i < length items" and "fixturenames (items ! i) = Some fixture_names"
  shows "\<exists>items'. pytest_collection_modifyitems config items = Inr items' \<and>
           length items' = length items \<and>
           own_markers (items' ! i) =
             own_markers (items ! i) @ markers_added (items ! i) (items' ! i) \<and>
           (''mcp_integration'' \<in> set (markers_added (items ! i) (items' ! i))
              \<longleftrightarrow> ''mcp_test_server'' \<in> set fixture_names)"
proof (intro exI conjI)
  let ?items' = "map (\<lambda>item. projr (mark_item item)) items"
  show "pytest_collection_modifyitems config items = Inr ?items'"
    by (rule modifyitems_map)
  show "length ?items' = length items"
    by simp
  have nth: "?items' ! i = projr (mark_item (items ! i))"
    using assms(1) by simp
  show "own_markers (?items' ! i) =
          own_markers (items ! i) @ markers_added (items ! i) (?items' ! i)"
    unfolding nth by (rule mark_item_appends)
  show "''mcp_integration'' \<in> set (markers_added (items ! i) (?items' ! i))
          \<longleftrightarrow> ''mcp_test_server'' \<in> set fixture_names"
    unfolding nth using assms(2) by (simp add: markers_added_mark_item)
qed

theorem modifyitems_integration_marker_witness:
  "1 < length example_items \<and>
   fixturenames (example_items ! 1) = Some [''tmp_path'', ''mcp_test_server''] \<and>
   (\<exists>items'. pytest_collection_modifyitems example_config example_items = Inr items' \<and>
      ''mcp_integration'' \<in> set (markers_added (example_items ! 1) (items' ! 1))) \<and>
   0 < length example_items \<and>
   fixturenames (example_items ! 0) = Some [''mcp_client''] \<and>
   (\<exists>items'. pytest_collection_modifyitems example_config example_items = Inr items' \<and>
      ''mcp_integration'' \<notin> set (markers_added (example_items ! 0) (items' ! 0)))"
proof -
  have l1: "1 < length example_items" and l0: "0 < length example_items"
    by (simp_all add: example_items_def)
  have f1: "fixturenames (example_items ! 1) = Some [''tmp_path'', ''mcp_test_server'']"
    and f0: "fixturenames (example_items ! 0) = Some [''mcp_client'']"
    by (simp_all add: example_items_def)
  from modifyitems_integration_marker [OF l1 f1, of example_config]
  have m1: "\<exists>items'. pytest_collection_modifyitems example_config example_items = Inr items' \<and>
      ''mcp_integration'' \<in> set (markers_added (example_items ! 1) (items' ! 1))"
  proof (elim exE conjE)
    fix items'
    assume "pytest_collection_modifyitems example_config example_items = Inr items'"
      and "(''mcp_integration'' \<in> set (markers_added (example_items ! 1) (items' ! 1))) =
           (''mcp_test_server'' \<in> set [''tmp_path'', ''mcp_test_server''])"
    then show ?thesis
      by (intro exI [of _ items']) simp
  qed
  from modifyitems_integration_marker [OF l0 f0, of example_config]
  have m0: "\<exists>items'. pytest_collection_modifyitems example_config example_items = Inr items' \<and>
      ''mcp_integration'' \<notin> set (markers_added (example_items ! 0) (items' ! 0))"
  proof (elim exE conjE)
    fix items'
    assume "pytest_collection_modifyitems example_config example_items = Inr items'"
      and "(''mcp_integration'' \<in> set (markers_added (example_items ! 0) (items' ! 0))) =
           (''mcp_test_server'' \<in> set [''mcp_client''])"
    then show ?thesis
      by (intro exI [of _ items']) simp
  qed
  from l1 f1 m1 l0 f0 m0 show ?thesis
    by (intro conjI)
qed

text \<open>
  Claim C9. After the collection hook has run, every item to which it appended the mark
  \<open>mcp_integration\<close> was also given the mark \<open>mcp\<close> by it.
\<close>

theorem integration_marker_implies_mcp_marker:
  assumes "i < length items"
  shows "\<exists>items'. pytest_collection_modifyitems config items = Inr items' \<and>
           (''mcp_integration'' \<in> set (markers_added (items ! i) (items' ! i)) \<longrightarrow>
            ''mcp'' \<in> set (markers_added (items ! i) (items' ! i)))"
proof (intro exI conjI)
  let ?items' = "map (\<lambda>item. projr (mark_item item)) items"
  show "pytest_collection_modifyitems config items = Inr ?items'"
    by (rule modifyitems_map)
  have nth: "?items' ! i = projr (mark_item (items ! i))"
    using assms by simp
  show "''mcp_integration'' \<in> set (markers_added (items ! i) (?items' ! i)) \<longrightarrow>
        ''mcp'' \<in> set (markers_added (items ! i) (?items' ! i))"
    unfolding nth markers_added_mark_item
    by (cases "fixturenames (items ! i)") (auto split: if_splits)
qed

theorem integration_marker_implies_mcp_marker_witness:
  "1 < length example_items \<and>
   (\<exists>items'. pytest_collection_modifyitems example_config example_items = Inr items' \<and>
      ''mcp_integration'' \<in> set (markers_added (example_items ! 1) (items' ! 1)) \<and>
      ''mcp'' \<in> set (markers_added (example_items ! 1) (items' ! 1)))"
proof -
  have l1: "1 < length example_items"
    by (simp add: example_items_def)
  have run: "pytest_collection_modifyitems example_config example_items =
      Inr (map (\<lambda>item. projr (mark_item item)) example_items)"
    by (rule modifyitems_map)
  have m1: "''mcp_integration'' \<in> set (markers_added (example_items ! 1)
              (map (\<lambda>item. projr (mark_item item)) example_items ! 1))"
    by (simp add: example_items_def markers_added_def mark_item_def hasattr_def
          getattr_default_def getattr_def add_marker_def)
  from integration_marker_implies_mcp_marker [OF l1, of example_config]
  have "\<exists>items'. pytest_collection_modifyitems example_config example_items = Inr items' \<and>
      ''mcp_integration'' \<in> set (markers_added (example_items ! 1) (items' ! 1)) \<and>
      ''mcp'' \<in> set (markers_added (example_items ! 1) (items' ! 1))"
  proof (elim exE conjE)
    fix items'
    assume r: "pytest_collection_modifyitems example_config example_items = Inr items'"
      and imp: "''mcp_integration'' \<in> set (markers_added (example_items ! 1) (items' ! 1)) \<longrightarrow>
                ''mcp'' \<in> set (markers_added (example_items ! 1) (items' ! 1))"
    from r run have eq: "items' = map (\<lambda>item. projr (mark_item item)) example_items"
      by simp
    from m1 have h: "''mcp_integration'' \<in> set (markers_added (example_items ! 1) (items' ! 1))"
      unfolding eq .
    from imp h have "''mcp'' \<in> set (markers_added (example_items ! 1) (items' ! 1))"
      by (rule mp)
    with r h show ?thesis
      by (intro exI [of _ items'] conjI)
  qed
  with l1 show ?thesis
    by (intro conjI)
qed

text \<open>
  Claim C10. The marks the collection hook appends depend on the fixture names of the
  items alone: two runs on the same items under any two configuration objects give the
  same items, and two runs on item lists that agree on their fixture names, under any
  two configuration objects, append the same marks position by position.
\<close>

theorem modifyitems_ignores_config:
  "pytest_collection_modifyitems config1 items = pytest_collection_modifyitems config2 items \<and>
   (map fixturenames items = map fixturenames items' \<longrightarrow>
      (\<exists>result result'.
         pytest_collection_modifyitems config1 items = Inr result \<and>
         pytest_collection_modifyitems config2 items' = Inr result' \<and>
         map2 markers_added items result = map2 markers_added items' result'))"
  by (simp add: modifyitems_map markers_added_all)

theorem modifyitems_ignores_config_witness:
  "map fixturenames example_items = map fixturenames renamed_items \<and>
   example_items \<noteq> renamed_items \<and> example_config \<noteq> bare_config \<and>
   (\<exists>result result'.
      pytest_collection_modifyitems example_config example_items = Inr result \<and>
      pytest_collection_modifyitems bare_config renamed_items = Inr result' \<and>
      map2 markers_added example_items result = map2 markers_added renamed_items result')"
proof -
  have same: "map fixturenames example_items = map fixturenames renamed_items"
    by (simp add: renamed_items_def example_items_def)
  have items_differ: "example_items \<noteq> renamed_items"
    by (simp add: renamed_items_def example_items_def)
  have "option example_config ''asyncio_mode'' \<noteq> option bare_config ''asyncio_mode''"
    by (simp add: example_config_def bare_config_def)
  then have configs_differ: "example_config \<noteq> bare_config"
    by auto
  from modifyitems_ignores_config [of example_config example_items bare_config renamed_items]
  have "map fixturenames example_items = map fixturenames renamed_items \<longrightarrow>
     (\<exists>result result'.
        pytest_collection_modifyitems example_config example_items = Inr result \<and>
        pytest_collection_modifyitems bare_config renamed_items = Inr result' \<and>
        map2 markers_added example_items result = map2 markers_added renamed_items result')"
    by (rule conjunct2)
  from this same have "\<exists>result result'.
      pytest_collection_modifyitems example_config example_items = Inr result \<and>
      pytest_collection_modifyitems bare_config renamed_items = Inr result' \<and>
      map2 markers_added example_items result = map2 markers_added renamed_items result'"
    by (rule mp)
  with same items_differ configs_differ show ?thesis
    by (intro conjI)
qed

subsection \<open>Configuration\<close>

text \<open>
  Claim C4. For every configuration object, \<open>pytest_configure\<close> returns and has appended
  exactly three lines to the \<open>markers\<close> ini value, after the lines it held, defining the
  markers \<open>mcp\<close>, \<open>mcp_integration\<close> and \<open>mcp_slow\<close> in that order; no other ini value
  changes.
\<close>

theorem configure_registers_markers:
  "\<exists>config' logged line1 line2 line3.
     pytest_configure config = Inr (config', logged) \<and>
     ini config' = (ini config)(''markers'' := ini config ''markers'' @ [line1, line2, line3]) \<and>
     marker_name line1 = ''mcp'' \<and> marker_name line2 = ''mcp_integration'' \<and>
     marker_name line3 = ''mcp_slow''"
  unfolding pytest_configure_result
  apply (intro exI conjI)
      apply (rule refl)
     apply simp
    apply (simp_all add: marker_name_def strip_def)
  done

text \<open>
  Claim C8. \<open>pytest_configure\<close> sets the option \<open>asyncio_mode\<close> to \<open>auto\<close> when the
  namespace has that attribute with a falsy value, and only then: a truthy
  \<open>asyncio_mode\<close> and a namespace without the attribute are left as they were, and no
  other attribute of the namespace changes.
\<close>

theorem configure_asyncio_mode:
  "\<exists>config' logged.
     pytest_configure config = Inr (config', logged) \<and>
     (\<forall>v. option config ''asyncio_mode'' = Some v \<and> \<not> truthy v \<longrightarrow>
          option config' = (option config)(''asyncio_mode'' \<mapsto> PyStr ''auto'')) \<and>
     (\<forall>v. option config ''asyncio_mode'' = Some v \<and> truthy v \<longrightarrow> option config' = option config) \<and>
     (option config ''asyncio_mode'' = None \<longrightarrow> option config' = option config) \<and>
     (\<forall>name. name \<noteq> ''asyncio_mode'' \<longrightarrow> option config' name = option config name)"
  unfolding pytest_configure_result
  by (intro exI conjI, rule refl) (auto split: option.split)

theorem configure_asyncio_mode_witness:
  "(\<exists>config' logged.
      pytest_configure example_config = Inr (config', logged) \<and>
      option example_config ''asyncio_mode'' = Some PyNone \<and> \<not> truthy PyNone \<and>
      option config' = (option example_config)(''asyncio_mode'' \<mapsto> PyStr ''auto'') \<and>
      ''mcp_timeout'' \<noteq> ''asyncio_mode'' \<and>
      option config' ''mcp_timeout'' = option example_config ''mcp_timeout'') \<and>
   (\<exists>config' logged.
      pytest_configure strict_config = Inr (config', logged) \<and>
      option strict_config ''asyncio_mode'' = Some (PyStr ''strict'') \<and> truthy (PyStr ''strict'') \<and>
      option config' = option strict_config) \<and>
   (\<exists>config' logged.
      pytest_configure bare_config = Inr (config', logged) \<and>
      option bare_config ''asyncio_mode'' = None \<and> option config' = option bare_config)"
proof (intro conjI)
  have falsy: "option example_config ''asyncio_mode'' = Some PyNone \<and> \<not> truthy PyNone"
    by (simp add: example_config_def)
  have other: "''mcp_timeout'' \<noteq> ''asyncio_mode''"
    by simp
  from configure_asyncio_mode [of example_config]
  show "\<exists>config' logged.
      pytest_configure example_config = Inr (config', logged) \<and>
      option example_config ''asyncio_mode'' = Some PyNone \<and> \<not> truthy PyNone \<and>
      option config' = (option example_config)(''asyncio_mode'' \<mapsto> PyStr ''auto'') \<and>
      ''mcp_timeout'' \<noteq> ''asyncio_mode'' \<and>
      option config' ''mcp_timeout'' = option example_config ''mcp_timeout''"
  proof (elim exE conjE)
    fix c l
    assume run: "pytest_configure example_config = Inr (c, l)"
      and set: "\<forall>v. option example_config ''asyncio_mode'' = Some v \<and> \<not> truthy v \<longrightarrow>
                  option c = (option example_config)(''asyncio_mode'' \<mapsto> PyStr ''auto'')"
      and frame: "\<forall>name. name \<noteq> ''asyncio_mode'' \<longrightarrow> option c name = option example_config name"
    have a: "option c = (option example_config)(''asyncio_mode'' \<mapsto> PyStr ''auto'')"
      by (rule set [rule_format, OF falsy])
    have b: "option c ''mcp_timeout'' = option example_config ''mcp_timeout''"
      by (rule frame [rule_format, OF other])
    show ?thesis
      by (rule exI [of _ c], rule exI [of _ l]) (intro conjI run a b other conjunct1 [OF falsy] conjunct2 [OF falsy])
  qed
next
  have true: "option strict_config ''asyncio_mode'' = Some (PyStr ''strict'') \<and> truthy (PyStr ''strict'')"
    by (simp add: strict_config_def)
  from configure_asyncio_mode [of strict_config]
  show "\<exists>config' logged.
      pytest_configure strict_config = Inr (config', logged) \<and>
      option strict_config ''asyncio_mode'' = Some (PyStr ''strict'') \<and> truthy (PyStr ''strict'') \<and>
      option config' = option strict_config"
  proof (elim exE conjE)
    fix c l
    assume run: "pytest_configure strict_config = Inr (c, l)"
      and keep: "\<forall>v. option strict_config ''asyncio_mode'' = Some v \<and> truthy v \<longrightarrow>
                  option c = option strict_config"
    have a: "option c = option strict_config"
      by (rule keep [rule_format, OF true])
    show ?thesis
      by (rule exI [of _ c], rule exI [of _ l]) (intro conjI run a conjunct1 [OF true] conjunct2 [OF true])
  qed
next
  have absent: "option bare_config ''asyncio_mode'' = None"
    by (simp add: bare_config_def)
  from configure_asyncio_mode [of bare_config]
  show "\<exists>config' logged.
      pytest_configure bare_config = Inr (config', logged) \<and>
      option bare_config ''asyncio_mode'' = None \<and> option config' = option bare_config"
  proof (elim exE conjE)
    fix c l
    assume run: "pytest_configure bare_config = Inr (c, l)"
      and keep: "option bare_config ''asyncio_mode'' = None \<longrightarrow> option c = option bare_config"
    have a: "option c = option bare_config"
      by (rule keep [rule_format, OF absent])
    show ?thesis
      by (rule exI [of _ c], rule exI [of _ l]) (intro conjI run a absent)
  qed
qed

subsection \<open>Command-line options\<close>

text \<open>
  Claim C3. \<open>pytest_addoption\<close> adds exactly three options to the group \<open>mcp\<close>, after the
  ones the group held, and touches no other group: \<open>--mcp-log-level\<close> with default
  \<open>WARNING\<close>, \<open>--mcp-timeout\<close> of type float with default \<open>30.0\<close>, and the flag
  \<open>--mcp-update-snapshots\<close> (action \<open>store_true\<close>) with default \<open>False\<close>.
\<close>

theorem addoption_registers:
  "\<exists>log_level timeout update_snapshots.
     pytest_addoption parser = parser(''mcp'' := parser ''mcp'' @ [log_level, timeout, update_snapshots]) \<and>
     opt_name log_level = ''--mcp-log-level'' \<and> opt_default log_level = PyStr ''WARNING'' \<and>
     opt_name timeout = ''--mcp-timeout'' \<and> opt_type timeout = Some TFloat \<and>
     opt_default timeout = PyFloat 30 \<and>
     opt_name update_snapshots = ''--mcp-update-snapshots'' \<and>
     action update_snapshots = ''store_true'' \<and> opt_default update_snapshots = PyBool False"
  unfolding pytest_addoption_result
  apply (intro exI conjI)
          apply (rule refl)
         apply simp_all
  done

subsection \<open>Report header\<close>

text \<open>
  Claim C6. For every configuration object, \<open>pytest_report_header\<close> returns the line
  \<open>mcp: log-level=<value>\<close> exactly when the namespace has the attribute
  \<open>mcp_log_level\<close>, followed by the line \<open>mcp: timeout=<value>s\<close> exactly when it has the
  attribute \<open>mcp_timeout\<close>, and nothing else; the list is empty when it has neither.
\<close>

theorem report_header_lines:
  "pytest_report_header float_repr config =
     Inr ((case option config ''mcp_log_level'' of
             None \<Rightarrow> []
           | Some v \<Rightarrow> [''mcp: log-level='' @ py_format float_repr v]) @
          (case option config ''mcp_timeout'' of
             None \<Rightarrow> []
           | Some v \<Rightarrow> [''mcp: timeout='' @ py_format float_repr v @ ''s''])) \<and>
   (option config ''mcp_log_level'' = None \<and> option config ''mcp_timeout'' = None \<longrightarrow>
      pytest_report_header float_repr config = Inr [])"
  by (simp add: pytest_report_header_result)

theorem report_header_lines_witness:
  "option bare_config ''mcp_log_level'' = None \<and> option bare_config ''mcp_timeout'' = None \<and>
   pytest_report_header (\<lambda>r. ''30.0'') bare_config = Inr [] \<and>
   pytest_report_header (\<lambda>r. ''30.0'') example_config =
     Inr [''mcp: log-level=WARNING'', ''mcp: timeout=30.0s'']"
proof -
  have absent: "option bare_config ''mcp_log_level'' = None \<and> option bare_config ''mcp_timeout'' = None"
    by (simp add: bare_config_def)
  have present: "option example_config ''mcp_log_level'' = Some (PyStr ''WARNING'') \<and>
                 option example_config ''mcp_timeout'' = Some (PyFloat 30)"
    by (simp add: example_config_def)
  from report_header_lines [of "\<lambda>r. ''30.0''" bare_config] absent
  have bare: "pytest_report_header (\<lambda>r. ''30.0'') bare_config = Inr []"
    by blast
  from report_header_lines [of "\<lambda>r. ''30.0''" example_config] present
  have full: "pytest_report_header (\<lambda>r. ''30.0'') example_config =
     Inr [''mcp: log-level=WARNING'', ''mcp: timeout=30.0s'']"
    by simp
  from absent bare full show ?thesis by simp
qed

subsection \<open>Exceptions\<close>

text \<open>
  Claim C5. \<open>pytest_exception_interact\<close> emits nothing when \<open>call.excinfo\<close> is \<open>None\<close>.
  Otherwise it emits one record of level error if and only if the name of the exception
  type is exactly \<open>ConnectionError\<close> or exactly \<open>TimeoutError\<close>, with the message written
  for that name; for every other exception type it emits nothing.
\<close>

theorem exception_interact_logs:
  "(excinfo call = None \<longrightarrow> pytest_exception_interact node call report = []) \<and>
   (\<forall>info. excinfo call = Some info \<longrightarrow>
      ((\<exists>message. pytest_exception_interact node call report = [(ERROR, message)]) \<longleftrightarrow>
         exc_type_name info = ''ConnectionError'' \<or> exc_type_name info = ''TimeoutError'') \<and>
      (exc_type_name info \<noteq> ''ConnectionError'' \<and> exc_type_name info \<noteq> ''TimeoutError'' \<longrightarrow>
         pytest_exception_interact node call report = []) \<and>
      (exc_type_name info = ''ConnectionError'' \<longrightarrow>
         pytest_exception_interact node call report =
           [(ERROR, ''MCP connection failed in '' @ nodeid node @ '': '' @ exc_value info @ [CHR 0x0A]
                    @ ''Check that your mcp_server fixture returns valid server parameters.'')]) \<and>
      (exc_type_name info = ''TimeoutError'' \<longrightarrow>
         pytest_exception_interact node call report =
           [(ERROR, ''MCP operation timed out in '' @ nodeid node @ '': '' @ exc_value info @ [CHR 0x0A]
                    @ ''Consider increasing timeout with --mcp-timeout option.'')]))"
  by (simp add: pytest_exception_interact_def)

theorem exception_interact_logs_witness:
  "excinfo passed_call = None \<and>
   pytest_exception_interact (example_items ! 0) passed_call () = [] \<and>
   excinfo timeout_call = Some \<lparr>exc_type_name = ''TimeoutError'', exc_value = ''no reply''\<rparr> \<and>
   pytest_exception_interact (example_items ! 0) timeout_call () =
     [(ERROR, ''MCP operation timed out in test_tools.py::test_list_tools: no reply'' @ [CHR 0x0A]
              @ ''Consider increasing timeout with --mcp-timeout option.'')] \<and>
   excinfo refused_call =
     Some \<lparr>exc_type_name = ''ConnectionRefusedError'', exc_value = ''refused''\<rparr> \<and>
   pytest_exception_interact (example_items ! 0) refused_call () = []"
proof -
  have none: "excinfo passed_call = None"
    by (simp add: passed_call_def)
  have timeout: "excinfo timeout_call =
      Some \<lparr>exc_type_name = ''TimeoutError'', exc_value = ''no reply''\<rparr>"
    by (simp add: timeout_call_def)
  have refused: "excinfo refused_call =
      Some \<lparr>exc_type_name = ''ConnectionRefusedError'', exc_value = ''refused''\<rparr>"
    by (simp add: refused_call_def)
  have node: "nodeid (example_items ! 0) = ''test_tools.py::test_list_tools''"
    by (simp add: example_items_def)
  from exception_interact_logs [of passed_call "example_items ! 0" "()"] none
  have r1: "pytest_exception_interact (example_items ! 0) passed_call () = []"
    by simp
  from exception_interact_logs [of timeout_call "example_items ! 0" "()"] timeout
  have r2: "pytest_exception_interact (example_items ! 0) timeout_call () =
     [(ERROR, ''MCP operation timed out in test_tools.py::test_list_tools: no reply'' @ [CHR 0x0A]
              @ ''Consider increasing timeout with --mcp-timeout option.'')]"
    by (simp add: node)
  from exception_interact_logs [of refused_call "example_items ! 0" "()"] refused
  have r3: "pytest_exception_interact (example_items ! 0) refused_call () = []"
    by simp
  from none timeout refused r1 r2 r3 show ?thesis
    by simp
qed

subsection \<open>Missing attributes\<close>

text \<open>
  Claim C7. No hook fails with a missing-attribute error, whatever attributes the
  configuration namespace and the items lack. \<open>pytest_configure\<close> and
  \<open>pytest_report_header\<close> read \<open>asyncio_mode\<close>, \<open>mcp_log_level\<close> and \<open>mcp_timeout\<close> with the
  plain read, which fails on a missing attribute, and only behind \<open>hasattr\<close>: both return
  a result for every configuration object. The collection hook reads \<open>fixturenames\<close>
  with the defaulted read behind \<open>hasattr\<close>: it returns a result for every list of items,
  one item for each item given, and an item without the attribute comes back as it was.
\<close>

theorem hooks_never_attribute_error:
  "(\<exists>config' logged. pytest_configure config = Inr (config', logged)) \<and>
   (\<forall>name. pytest_configure config \<noteq> Inl (AttributeError name)) \<and>
   (\<exists>headers. pytest_report_header float_repr config = Inr headers) \<and>
   (\<forall>name. pytest_report_header float_repr config \<noteq> Inl (AttributeError name)) \<and>
   (\<exists>items'. pytest_collection_modifyitems config items = Inr items' \<and>
      length items' = length items \<and>
      (\<forall>i. i < length items \<and> fixturenames (items ! i) = None \<longrightarrow> items' ! i = items ! i)) \<and>
   (\<forall>name. pytest_collection_modifyitems config items \<noteq> Inl (AttributeError name))"
proof (intro conjI)
  show "\<exists>config' logged. pytest_configure config = Inr (config', logged)"
    by (simp add: pytest_configure_result)
  show "\<forall>name. pytest_configure config \<noteq> Inl (AttributeError name)"
    by (simp add: pytest_configure_result)
  show "\<exists>headers. pytest_report_header float_repr config = Inr headers"
    by (simp add: pytest_report_header_result)
  show "\<forall>name. pytest_report_header float_repr config \<noteq> Inl (AttributeError name)"
    by (simp add: pytest_report_header_result)
  show "\<exists>items'. pytest_collection_modifyitems config items = Inr items' \<and>
      length items' = length items \<and>
      (\<forall>i. i < length items \<and> fixturenames (items ! i) = None \<longrightarrow> items' ! i = items ! i)"
    by (simp add: modifyitems_map mark_item_without_fixturenames)
  show "\<forall>name. pytest_collection_modifyitems config items \<noteq> Inl (AttributeError name)"
    by (simp add: modifyitems_map)
qed

text \<open>
  The last example item has no \<open>fixturenames\<close> and the last example configuration has
  no attribute at all: the plain read fails on both, and the hooks return.
\<close>

theorem hooks_never_attribute_error_witness:
  "3 < length example_items \<and> fixturenames (example_items ! 3) = None \<and>
   getattr ''fixturenames'' (fixturenames (example_items ! 3)) =
     Inl (AttributeError ''fixturenames'') \<and>
   getattr ''asyncio_mode'' (option bare_config ''asyncio_mode'') =
     Inl (AttributeError ''asyncio_mode'') \<and>
   (\<exists>items'. pytest_collection_modifyitems bare_config example_items = Inr items' \<and>
      items' ! 3 = example_items ! 3) \<and>
   (\<exists>config' logged. pytest_configure bare_config = Inr (config', logged)) \<and>
   pytest_report_header (\<lambda>r. ''30.0'') bare_config = Inr []"
proof -
  have l3: "3 < length example_items" and f3: "fixturenames (example_items ! 3) = None"
    by (simp_all add: example_items_def)
  have g1: "getattr ''fixturenames'' (fixturenames (example_items ! 3)) =
      Inl (AttributeError ''fixturenames'')"
    by (simp add: f3 getattr_def)
  have g2: "getattr ''asyncio_mode'' (option bare_config ''asyncio_mode'') =
      Inl (AttributeError ''asyncio_mode'')"
    by (simp add: bare_config_def getattr_def)
  note all = hooks_never_attribute_error [of bare_config "\<lambda>r. ''30.0''" example_items]
  from all have "\<exists>items'. pytest_collection_modifyitems bare_config example_items = Inr items' \<and>
      length items' = length example_items \<and>
      (\<forall>i. i < length example_items \<and> fixturenames (example_items ! i) = None \<longrightarrow>
           items' ! i = example_items ! i)"
    by (elim conjE)
  then have c: "\<exists>items'. pytest_collection_modifyitems bare_config example_items = Inr items' \<and>
      items' ! 3 = example_items ! 3"
  proof (elim exE conjE)
    fix items'
    assume r: "pytest_collection_modifyitems bare_config example_items = Inr items'"
      and keep: "\<forall>i. i < length example_items \<and> fixturenames (example_items ! i) = None \<longrightarrow>
                   items' ! i = example_items ! i"
    from keep l3 f3 have "items' ! 3 = example_items ! 3"
      by simp
    with r show ?thesis
      by (intro exI [of _ items'] conjI)
  qed
  from all have d: "\<exists>config' logged. pytest_configure bare_config = Inr (config', logged)"
    by (elim conjE)
  from all have "\<exists>headers. pytest_report_header (\<lambda>r. ''30.0'') bare_config = Inr headers"
    by (elim conjE)
  then have e: "pytest_report_header (\<lambda>r. ''30.0'') bare_config = Inr []"
    by (simp add: pytest_report_header_def hasattr_def bare_config_def)
  from l3 f3 g1 g2 c d e show ?thesis
    by (intro conjI)
qed

end
